theory Spec2Isabelle
  imports Complex_Main
begin

section \<open>The validator of neurons/validator.py\<close>

text \<open>
  The validator queries miners, scores their answers, sums the scores of the rounds and
  every few rounds folds the averaged sum into a moving average that is written to the
  chain. Exceptions are values of the type \<open>error\<close>; a function that can raise returns
  \<open>error + 'a\<close>, with \<open>Inl\<close> for the exception.
\<close>

datatype error =
    ValueError | KeyError | TypeError | IndexError | RuntimeError
  | NameError | UnboundLocalError | TimeoutError | OtherError

subsection \<open>float32 arithmetic\<close>

text \<open>
  The tensors of the source are torch float32 tensors. A float32 value is a real number
  of the form \<open>m * 2 ^ e\<close>; every operation computes the exact result and rounds it to
  the nearest such number, ties to the even mantissa. \<open>binade y\<close> counts the halvings
  that bring \<open>y\<close> below 2, so for \<open>y = \<bar>x\<bar> * 2 ^ 126\<close> it is the exponent of \<open>x\<close>
  above the least normal exponent -126, and 0 for subnormal \<open>x\<close>. \<open>quantum x\<close> is the
  distance between neighbouring float32 values around \<open>x\<close> (24 bits of mantissa), and
  \<open>fl32 x\<close> is \<open>x\<close> rounded. Infinities and NaN are not modelled: the results hold for
  magnitudes below \<open>2 ^ 128\<close>, and scores lie between 0 and 1.
\<close>

function binade :: "real \<Rightarrow> nat" where
  "binade y = (if 2 \<le> y then Suc (binade (y / 2)) else 0)"
  by pat_completeness auto
termination
  by (relation "measure (\<lambda>y. nat \<lfloor>y\<rfloor>)") (auto, linarith)

declare binade.simps [simp del]

definition quantum :: "real \<Rightarrow> real" where
  "quantum x = 2 ^ binade (\<bar>x\<bar> * 2 ^ 126) / 2 ^ 149"

definition round_half_even :: "real \<Rightarrow> int" where
  "round_half_even q =
     (let f = \<lfloor>q\<rfloor>; r = q - of_int f in
      if r < 1 / 2 then f
      else if 1 / 2 < r then f + 1
      else if even f then f else f + 1)"

definition fl32 :: "real \<Rightarrow> real" where
  "fl32 x = of_int (round_half_even (x / quantum x)) * quantum x"

subsection \<open>Tensors\<close>

text \<open>
  A one-dimensional float32 tensor is the list of its entries. A Python number that meets
  a float32 tensor in an operation is first cast to float32, then the operation runs in
  float32, one rounding per entry. Adding two tensors follows torch's broadcasting: equal
  sizes add index by index, a tensor of size one is added to every entry of the other,
  any other pair of sizes raises RuntimeError. The in-place \<open>+=\<close> keeps the size of its
  left operand, so only the right operand may be broadcast.
\<close>

type_synonym tensor = "real list"


definition scalar_mul :: "real \<Rightarrow> tensor \<Rightarrow> tensor" where
  "scalar_mul a t = map (\<lambda>x. fl32 (fl32 a * x)) t"


definition tensor_add :: "tensor \<Rightarrow> tensor \<Rightarrow> error + tensor" where
  "tensor_add a b =
     (if length a = length b then Inr (map2 (\<lambda>x y. fl32 (x + y)) a b)
      else if length a = 1 then Inr (map (\<lambda>y. fl32 (hd a + y)) b)
      else if length b = 1 then Inr (map (\<lambda>x. fl32 (x + hd b)) a)
      else Inl RuntimeError)"


subsection \<open>set_weights\<close>

text \<open>
  \<open>alpha\<close> is the Python float \<open>.3\<close>, that is the double nearest to 3/10, and
  \<open>one_minus_alpha\<close> is the double that \<open>1 - alpha\<close> evaluates to in double arithmetic
  (the exact difference lies halfway between two doubles and goes to the even one).

  \<open>set_weights scores ledger moving_average_scores\<close>: the global
  \<open>moving_average_scores\<close> is \<open>None\<close> until the first call, which clones the scores into
  it; the update line then runs on every call, the first one included. \<open>ledger\<close> is what
  \<open>subtensor.set_weights\<close> does with the weights: \<open>None\<close> when it returns, \<open>Some e\<close>
  when it raises \<open>e\<close>. The result is the exception that leaves the function, if any, and
  the global afterwards, which is also the weight vector handed to the chain.
\<close>

definition alpha :: real where
  "alpha = 5404319552844595 / 18014398509481984"

definition one_minus_alpha :: real where
  "one_minus_alpha = 3152519739159347 / 4503599627370496"

definition set_weights ::
  "tensor \<Rightarrow> error option \<Rightarrow> tensor option \<Rightarrow> (error + unit) \<times> tensor option" where
  "set_weights scores ledger moving_average_scores =
     (let cloned = (case moving_average_scores of None \<Rightarrow> scores | Some m \<Rightarrow> m) in
      case tensor_add (scalar_mul alpha scores) (scalar_mul one_minus_alpha cloned) of
        Inl e \<Rightarrow> (Inl e, Some cloned)
      | Inr updated \<Rightarrow>
          (case ledger of
             Some e \<Rightarrow> (Inl e, Some updated)
           | None \<Rightarrow> (Inr (), Some updated)))"

subsection \<open>The round loop: query_synapse\<close>

text \<open>
  The loop keeps the counter \<open>steps_passed\<close> and the sum \<open>total_scores\<close> in local
  variables and the moving average in a global. \<open>handed\<close> is not in the source: it
  records, oldest first, the vectors with which \<open>set_weights\<close> was called.
\<close>

record loop_state =
  steps_passed :: nat
  total_scores :: tensor
  moving_average_scores :: "tensor option"
  handed :: "tensor list"






subsection \<open>The list supply: objects and state\<close>

text \<open>
  Python lists are objects: \<open>pop\<close> changes the list in place, and two names for one list
  see the change. The model keeps the contents of every list in \<open>lists\<close>, indexed by
  address. The four built-in default lists of the module \<open>template\<close> (which is not part
  of the source file) have the addresses \<open>Template d\<close>; a list created by
  \<open>template.utils.extract_python_list\<close> gets the next address \<open>Heap n\<close>. The global
  \<open>state\<close> is a dictionary of dictionaries whose values are lists or \<open>None\<close>.

  The remaining fields are the world the supply talks to: \<open>extract_python_list\<close> is the
  function of that name in \<open>template.utils\<close>, which may raise and may return \<open>None\<close>;
  \<open>api n\<close> is what the \<open>n\<close>-th chat-completion request does, so a world can answer
  each request in any way (the prompt and seed of a request are determined by the run and
  do not appear); \<open>requests\<close> counts the requests made so far. Two fields are not in
  the source: \<open>completions\<close> counts the calls of \<open>call_openai\<close> and \<open>fetched\<close>
  records the list type of every call of \<open>get_list\<close>, oldest first.
\<close>

datatype default_name = Question_themes | Image_themes | Text_questions | Image_questions

datatype addr = Template default_name | Heap nat

datatype api_reply = Api_raises error | Content "string option"

record machine =
  state :: "string \<rightharpoonup> (string \<rightharpoonup> addr option)"
  lists :: "addr \<Rightarrow> string list"
  allocated :: nat
  extract_python_list :: "string \<Rightarrow> error + string list option"
  api :: "nat \<Rightarrow> api_reply"
  requests :: nat
  completions :: nat
  fetched :: "string list"

text \<open>Sequencing of steps that may raise: the first exception ends the sequence.\<close>

definition and_then ::
  "(error + 'a) \<times> machine \<Rightarrow> ('a \<Rightarrow> machine \<Rightarrow> (error + 'b) \<times> machine)
     \<Rightarrow> (error + 'b) \<times> machine" where
  "and_then r f = (case r of (Inl e, m) \<Rightarrow> (Inl e, m) | (Inr x, m) \<Rightarrow> f x m)"

text \<open>\<open>state[category][item_type]\<close>, read and written; a missing key raises KeyError.\<close>

definition lookup :: "string \<Rightarrow> string \<Rightarrow> machine \<Rightarrow> (error + addr option) \<times> machine" where
  "lookup category item_type m =
     (case state m category of
        None \<Rightarrow> (Inl KeyError, m)
      | Some d \<Rightarrow> (case d item_type of None \<Rightarrow> (Inl KeyError, m) | Some v \<Rightarrow> (Inr v, m)))"

definition assign :: "string \<Rightarrow> string \<Rightarrow> addr option \<Rightarrow> machine \<Rightarrow> (error + unit) \<times> machine" where
  "assign category item_type v m =
     (case state m category of
        None \<Rightarrow> (Inl KeyError, m)
      | Some d \<Rightarrow> (Inr (), m\<lparr>state := (state m)(category \<mapsto> d(item_type \<mapsto> v))\<rparr>))"

text \<open>The truth value of a list or \<open>None\<close>, and \<open>items.pop() if items else None\<close>.\<close>

definition truthy :: "machine \<Rightarrow> addr option \<Rightarrow> bool" where
  "truthy m items = (case items of None \<Rightarrow> False | Some a \<Rightarrow> lists m a \<noteq> [])"

definition pop_if_any :: "addr option \<Rightarrow> machine \<Rightarrow> string option \<times> machine" where
  "pop_if_any items m =
     (case items of
        None \<Rightarrow> (None, m)
      | Some a \<Rightarrow>
          if lists m a = [] then (None, m)
          else (Some (last (lists m a)), m\<lparr>lists := (lists m)(a := butlast (lists m a))\<rparr>))"

subsection \<open>call_openai and get_list\<close>

text \<open>
  \<open>call_openai\<close> makes at most two requests: the first that does not raise decides the
  result, which is the content of the answer (possibly \<open>None\<close>); two raising requests
  give \<open>None\<close>. It never raises.
\<close>

fun call_openai_attempts :: "nat \<Rightarrow> machine \<Rightarrow> string option \<times> machine" where
  "call_openai_attempts 0 m = (None, m)"
| "call_openai_attempts (Suc n) m =
     (case api m (requests m) of
        Content c \<Rightarrow> (c, m\<lparr>requests := requests m + 1\<rparr>)
      | Api_raises e \<Rightarrow> call_openai_attempts n (m\<lparr>requests := requests m + 1\<rparr>))"

definition call_openai :: "machine \<Rightarrow> string option \<times> machine" where
  "call_openai m = call_openai_attempts 2 (m\<lparr>completions := completions m + 1\<rparr>)"

definition list_type_mapping :: "string \<Rightarrow> default_name option" where
  "list_type_mapping list_type =
     (if list_type = ''text_themes'' then Some Question_themes
      else if list_type = ''images_themes'' then Some Image_themes
      else if list_type = ''text_questions'' then Some Text_questions
      else if list_type = ''images_questions'' then Some Image_questions
      else None)"

definition replace_newlines :: "string \<Rightarrow> string" where
  "replace_newlines answer = map (\<lambda>c. if c = CHR 0x0A then CHR '' '' else c) answer"

text \<open>
  The \<open>try\<close> block of one pass of the retry loop: ask, flatten the answer, extract. Its
  result is the exception raised inside the block, or what the extraction returned.
\<close>

definition get_list_try :: "machine \<Rightarrow> (error + string list option) \<times> machine" where
  "get_list_try m =
     (case call_openai m of
        (answer, m1) \<Rightarrow>
          (extract_python_list m1
             (case answer of
                None \<Rightarrow> []
              | Some a \<Rightarrow> if a \<noteq> [] then replace_newlines a else []),
           m1))"

text \<open>
  The retry loop with \<open>n\<close> passes left. An extracted list that is not empty is returned,
  as a new list object; an empty or missing list and an exception (which the \<open>except\<close>
  clause logs) lead to the next pass. \<open>None\<close> means that the passes are used up.
\<close>

fun get_list_retries :: "nat \<Rightarrow> machine \<Rightarrow> addr option \<times> machine" where
  "get_list_retries 0 m = (None, m)"
| "get_list_retries (Suc n) m =
     (case get_list_try m of
        (Inl e, m1) \<Rightarrow> get_list_retries n m1
      | (Inr None, m1) \<Rightarrow> get_list_retries n m1
      | (Inr (Some extracted_list), m1) \<Rightarrow>
          if extracted_list \<noteq> [] then
            (Some (Heap (allocated m1)),
             m1\<lparr>lists := (lists m1)(Heap (allocated m1) := extracted_list),
                allocated := allocated m1 + 1\<rparr>)
          else get_list_retries n m1)"

text \<open>
  \<open>get_list\<close> returns \<open>None\<close> for a list type that is not in its table, the extracted
  list of the first pass that yields one, and otherwise the default list of the table:
  the list object of the module \<open>template\<close> itself, not a copy.
\<close>

definition max_retries :: nat where
  "max_retries = 3"

definition get_list :: "string \<Rightarrow> string option \<Rightarrow> machine \<Rightarrow> (error + addr option) \<times> machine" where
  "get_list list_type theme m =
     (case list_type_mapping list_type of
        None \<Rightarrow> (Inr None, m\<lparr>fetched := fetched m @ [list_type]\<rparr>)
      | Some d \<Rightarrow>
          (case get_list_retries max_retries (m\<lparr>fetched := fetched m @ [list_type]\<rparr>) of
             (Some a, m1) \<Rightarrow> (Inr (Some a), m1)
           | (None, m1) \<Rightarrow> (Inr (Some (Template d)), m1)))"

subsection \<open>update_counters_and_get_new_list and get_question\<close>

text \<open>
  \<open>get_current_theme\<close> pops a theme, refetching the themes when there are none; its call
  \<open>get_items(category, "themes")\<close> is the call of \<open>get_list\<close> written here. \<open>get_items\<close>
  fetches the list for a key; for questions it needs a theme and raises ValueError when
  none is supplied and none can be popped.
\<close>

definition get_current_theme :: "string \<Rightarrow> machine \<Rightarrow> (error + string option) \<times> machine" where
  "get_current_theme category m =
     and_then (lookup category ''themes'' m) (\<lambda>themes m.
       and_then
         (if truthy m themes then (Inr themes, m)
          else and_then (get_list (category @ ''_themes'') None m) (\<lambda>themes m.
                 and_then (assign category ''themes'' themes m) (\<lambda>u m. (Inr themes, m))))
         (\<lambda>themes m. case pop_if_any themes m of (item, m1) \<Rightarrow> (Inr item, m1)))"

definition get_items ::
  "string \<Rightarrow> string \<Rightarrow> string option \<Rightarrow> machine \<Rightarrow> (error + addr option) \<times> machine" where
  "get_items category item_type theme m =
     (if item_type = ''themes'' then get_list (category @ ''_themes'') None m
      else
        and_then
          (case theme of
             Some t \<Rightarrow> (Inr t, m)
           | None \<Rightarrow>
               and_then (get_current_theme category m) (\<lambda>popped m.
                 case popped of None \<Rightarrow> (Inl ValueError, m) | Some t \<Rightarrow> (Inr t, m)))
          (\<lambda>t m. get_list (category @ ''_questions'') (Some t) m))"

text \<open>
  The body of \<open>update_counters_and_get_new_list\<close>, in the order of the source: read
  the queue; if it is empty, \<open>refetch\<close> (the block under \<open>if not items\<close>: fetch, store,
  and the debug message whose \<open>len(items)\<close> raises TypeError when \<open>get_list\<close> returned
  \<open>None\<close>); then \<open>pop_item\<close> (pop if there is anything to pop, and store \<open>None\<close> when
  the list is empty afterwards). The lock around the body is not modelled: calls are run
  one after the other.
\<close>

definition refetch ::
  "string \<Rightarrow> string \<Rightarrow> string option \<Rightarrow> machine \<Rightarrow> (error + addr option) \<times> machine" where
  "refetch category item_type theme m =
     and_then (get_items category item_type theme m) (\<lambda>items m.
       and_then (assign category item_type items m) (\<lambda>u m.
         case items of None \<Rightarrow> (Inl TypeError, m) | Some a \<Rightarrow> (Inr items, m)))"

definition pop_item ::
  "string \<Rightarrow> string \<Rightarrow> addr option \<Rightarrow> machine \<Rightarrow> (error + string option) \<times> machine" where
  "pop_item category item_type items m =
     (case pop_if_any items m of
        (item, m1) \<Rightarrow>
          if truthy m1 items then (Inr item, m1)
          else and_then (assign category item_type None m1) (\<lambda>u m. (Inr item, m)))"

definition update_counters_and_get_new_list ::
  "string \<Rightarrow> string \<Rightarrow> string option \<Rightarrow> machine \<Rightarrow> (error + string option) \<times> machine" where
  "update_counters_and_get_new_list category item_type theme m =
     and_then (lookup category item_type m) (\<lambda>items m.
       and_then
         (if truthy m items then (Inr items, m) else refetch category item_type theme m)
         (pop_item category item_type))"

definition get_question :: "string \<Rightarrow> machine \<Rightarrow> (error + string option) \<times> machine" where
  "get_question category m =
     (if category \<noteq> ''text'' \<and> category \<noteq> ''images'' then (Inl ValueError, m)
      else update_counters_and_get_new_list category ''questions'' None m)"


subsection \<open>Querying miners: query_miner and start_query\<close>

text \<open>
  What a miner sends back. For the unary synapses the dendrite returns a list of response
  objects, of which the scoring reads the completion (the URL of an image) and the
  embeddings. For the streaming synapse it returns a list of streams; a stream yields
  chunks, a chunk is a list of strings or some other object, and a stream may raise while
  it is read (an \<open>Inl\<close> item). \<open>unary\<close> and \<open>streaming\<close> are what the two awaited calls
  of the dendrite do for this miner: they raise (transport error, failed
  deserialisation, \<open>asyncio.TimeoutError\<close> of \<open>wait_for\<close>) or return.
\<close>

record response =
  completion :: "string option"
  embeddings :: "real list list option"

datatype chunk = List_chunk "string list" | Other_chunk

datatype responses = Unary "response list" | Streamed string

record miner =
  unary :: "error + response list"
  streaming :: "error + (error + chunk) list list"

text \<open>
  \<open>asyncio.gather\<close> over tasks whose outcomes are known: the results in the order of the
  tasks, or the exception of a task that raised.
\<close>

fun gather :: "(error + 'a) list \<Rightarrow> error + 'a list" where
  "gather [] = Inr []"
| "gather (t # ts) =
     (case t of
        Inl e \<Rightarrow> Inl e
      | Inr x \<Rightarrow> (case gather ts of Inl e \<Rightarrow> Inl e | Inr xs \<Rightarrow> Inr (x # xs)))"

text \<open>
  Reading one stream: every chunk that is a list appends its first element to the text
  read so far (IndexError when the list is empty); other chunks are skipped.
\<close>

fun read_stream :: "(error + chunk) list \<Rightarrow> string \<Rightarrow> error + string" where
  "read_stream [] responses = Inr responses"
| "read_stream (Inl e # rest) responses = Inl e"
| "read_stream (Inr Other_chunk # rest) responses = read_stream rest responses"
| "read_stream (Inr (List_chunk []) # rest) responses = Inl IndexError"
| "read_stream (Inr (List_chunk (x # xs)) # rest) responses = read_stream rest (responses @ x)"

text \<open>
  The \<open>try\<close> block of \<open>query_miner\<close>. Its first statement formats the global name
  \<open>timeout\<close>, which the file never defines (the validators store their timeout in
  \<open>self.timeout\<close>); \<open>timeout\<close> is the value of that global, \<open>None\<close> when it does not
  exist, and reading it then raises NameError. For a synapse type other than \<open>image\<close>,
  \<open>embeddings\<close> and \<open>text\<close> the variable \<open>responses\<close> is never assigned and the
  \<open>return\<close> raises UnboundLocalError. Only the first stream is read.
\<close>

definition query_miner_try :: "nat option \<Rightarrow> miner \<Rightarrow> string \<Rightarrow> error + responses" where
  "query_miner_try timeout axon syn_type =
     (case timeout of
        None \<Rightarrow> Inl NameError
      | Some seconds \<Rightarrow>
          if syn_type = ''image'' \<or> syn_type = ''embeddings'' then
            (case unary axon of Inl e \<Rightarrow> Inl e | Inr rs \<Rightarrow> Inr (Unary rs))
          else if syn_type = ''text'' then
            (case streaming axon of
               Inl e \<Rightarrow> Inl e
             | Inr [] \<Rightarrow> Inr (Streamed [])
             | Inr (resp # others) \<Rightarrow>
                 (case read_stream resp [] of
                    Inl e \<Rightarrow> Inl e
                  | Inr text \<Rightarrow> Inr (Streamed text)))
          else Inl UnboundLocalError)"

text \<open>
  \<open>query_miner\<close> as a task: what awaiting it gives. The \<open>except Exception\<close> clause turns
  every exception of the block into the pair of the uid and \<open>None\<close>.
\<close>

definition query_miner ::
  "nat option \<Rightarrow> miner \<Rightarrow> nat \<Rightarrow> string \<Rightarrow> error + nat \<times> responses option" where
  "query_miner timeout axon uid syn_type =
     (case query_miner_try timeout axon syn_type of
        Inl e \<Rightarrow> Inr (uid, None)
      | Inr rs \<Rightarrow> Inr (uid, Some rs))"

text \<open>
  \<open>ImageValidator.start_query\<close>. The loop asks a question for every uid, looks up the
  axon of the uid (IndexError beyond the axons of the metagraph) and creates the task; an
  exception in the loop leaves \<open>start_query\<close> before anything is sent. Then all tasks are
  gathered. The query type of the image validator is \<open>images\<close>. The constructor of the
  synapse, of the module \<open>template.protocol\<close>, is taken not to raise.
\<close>

fun image_tasks ::
  "nat option \<Rightarrow> miner list \<Rightarrow> nat list \<Rightarrow> machine
     \<Rightarrow> (error + ((error + nat \<times> responses option) \<times> nat \<times> string option) list) \<times> machine" where
  "image_tasks timeout axons [] m = (Inr [], m)"
| "image_tasks timeout axons (uid # uids) m =
     and_then (get_question ''images'' m) (\<lambda>messages m.
       if length axons \<le> uid then (Inl IndexError, m)
       else
         and_then (image_tasks timeout axons uids m) (\<lambda>rest m.
           (Inr ((query_miner timeout (axons ! uid) uid ''images'', uid, messages) # rest), m)))"

definition image_start_query ::
  "nat option \<Rightarrow> miner list \<Rightarrow> nat list \<Rightarrow> machine
     \<Rightarrow> (error + (nat \<times> responses option) list \<times> (nat \<rightharpoonup> string option)) \<times> machine" where
  "image_start_query timeout axons available_uids m =
     and_then (image_tasks timeout axons available_uids m) (\<lambda>tasks m.
       case gather (map fst tasks) of
         Inl e \<Rightarrow> (Inl e, m)
       | Inr query_responses \<Rightarrow> (Inr (query_responses, map_of (rev (map snd tasks))), m))"

subsection \<open>A world without oracle\<close>

text \<open>
  A machine for examples: the chat-completion service raises on every request and
  nothing can be extracted; the state holds the category \<open>text\<close> with no themes and no
  questions yet; the module \<open>template\<close> has one default theme and two default questions.
\<close>

definition api_down :: machine where
  "api_down =
     \<lparr>state = [''text'' \<mapsto> [''themes'' \<mapsto> None, ''questions'' \<mapsto> None]],
      lists = (\<lambda>a. [])(Template Question_themes := [''history''],
                          Template Text_questions := [''why'', ''how'']),
      allocated = 0,
      extract_python_list = (\<lambda>s. Inr None),
      api = (\<lambda>n. Api_raises OtherError),
      requests = 0, completions = 0, fetched = []\<rparr>"


section \<open>Properties\<close>

subsection \<open>Evaluating float32 roundings\<close>

lemmas fl32_eval = fl32_def quantum_def round_half_even_def binade.simps Let_def

lemma fl32_alpha: "fl32 alpha = 5033165 / 16777216"
  by (simp add: alpha_def fl32_eval)

lemma fl32_one_minus_alpha: "fl32 one_minus_alpha = 11744051 / 16777216"
  by (simp add: one_minus_alpha_def fl32_eval)

lemma alpha_is_double_of_three_tenths:
  "\<bar>alpha - 3 / 10\<bar> \<le> 1 / 2 ^ 55 \<and> fl32 alpha = fl32 (3 / 10) \<and>
   fl32 one_minus_alpha = fl32 (7 / 10)"
  by (simp add: fl32_alpha fl32_one_minus_alpha) (simp add: alpha_def fl32_eval)

lemma fl32_values:
  "fl32 0 = 0" "fl32 1 = 1" "fl32 (1 / 2) = 1 / 2"
  "fl32 (5033165 / 16777216) = 5033165 / 16777216"
  "fl32 (11744051 / 16777216) = 11744051 / 16777216"
  "fl32 (5033165 / 33554432) = 5033165 / 33554432"
  "fl32 (11744051 / 33554432) = 11744051 / 33554432"
  by (simp_all add: fl32_eval)


subsection \<open>The moving average\<close>

lemma map2_of_maps:
  "map2 h (map f xs) (map g ys) = map2 (\<lambda>x y. h (f x) (g y)) xs ys"
proof (induction xs arbitrary: ys)
  case Nil
  show ?case by simp
next
  case (Cons x xs)
  show ?case by (cases ys) (simp_all add: Cons)
qed

lemma map2_same: "map2 h xs xs = map (\<lambda>x. h x x) xs"
  by (induction xs) simp_all

text \<open>
  C1, as the claim states it: on the first call the committed vector is not always the
  score vector. For the float32 score 0.123 (that is 16508781 / 2^27) the update line
  \<open>alpha * scores + (1 - alpha) * scores\<close> rounds three times and returns the next
  float32 value above it, 8254391 / 2^26.
\<close>

theorem first_call_rounds:
  "snd (set_weights [16508781 / 134217728] None None) = Some [8254391 / 67108864] \<and>
   [8254391 / 67108864] \<noteq> [16508781 / 134217728 :: real]"
  by (simp add: set_weights_def tensor_add_def scalar_mul_def fl32_alpha fl32_one_minus_alpha)
     (simp add: fl32_eval)

text \<open>
  C1, amended. With \<open>a = 5033165 / 2^24\<close> and \<open>b = 11744051 / 2^24\<close> the float32 values
  of 0.3 and 0.7, and \<open>fl32\<close> the rounding to float32: the first call commits
  \<open>fl32 (fl32 (a * s) + fl32 (b * s))\<close> for every entry \<open>s\<close> of the scores, which is
  \<open>s\<close> up to rounding; a later call whose scores \<open>v\<close> have the size of the previous
  committed vector \<open>p\<close> commits \<open>fl32 (fl32 (a * v) + fl32 (b * p))\<close> entry by entry; a later
  call whose sizes differ, neither being 1, raises RuntimeError and leaves the committed
  vector as it was. The committed vector does not depend on whether the write to the
  chain succeeds.
\<close>

theorem set_weights_rounded_moving_average:
  "snd (set_weights v ledger None)
     = Some (map (\<lambda>x. fl32 (fl32 (5033165 / 16777216 * x)
                             + fl32 (11744051 / 16777216 * x))) v) \<and>
   (length v = length p \<longrightarrow>
      snd (set_weights v ledger (Some p))
        = Some (map2 (\<lambda>x y. fl32 (fl32 (5033165 / 16777216 * x)
                                   + fl32 (11744051 / 16777216 * y))) v p)) \<and>
   (length v \<noteq> length p \<and> length v \<noteq> 1 \<and> length p \<noteq> 1 \<longrightarrow>
      set_weights v ledger (Some p) = (Inl RuntimeError, Some p))"
proof (intro conjI impI)
  show "snd (set_weights v ledger None)
     = Some (map (\<lambda>x. fl32 (fl32 (5033165 / 16777216 * x)
                             + fl32 (11744051 / 16777216 * x))) v)"
    by (simp add: set_weights_def tensor_add_def scalar_mul_def fl32_alpha
          fl32_one_minus_alpha map2_of_maps map2_same split: option.split)
next
  assume "length v = length p"
  then show "snd (set_weights v ledger (Some p))
        = Some (map2 (\<lambda>x y. fl32 (fl32 (5033165 / 16777216 * x)
                                   + fl32 (11744051 / 16777216 * y))) v p)"
    by (simp add: set_weights_def tensor_add_def scalar_mul_def fl32_alpha
          fl32_one_minus_alpha map2_of_maps split: option.split)
next
  assume "length v \<noteq> length p \<and> length v \<noteq> 1 \<and> length p \<noteq> 1"
  then show "set_weights v ledger (Some p) = (Inl RuntimeError, Some p)"
    by (simp add: set_weights_def tensor_add_def scalar_mul_def)
qed

theorem set_weights_rounded_moving_average_witness:
  "snd (set_weights [0, 1, 1 / 2] None None) = Some [0, 1, 1 / 2] \<and>
   length [0, 1, 1 / 2 :: real] = length [1, 0, 1 / 2 :: real] \<and>
   snd (set_weights [0, 1, 1 / 2] None (Some [1, 0, 1 / 2]))
     = Some [11744051 / 16777216, 5033165 / 16777216, 1 / 2] \<and>
   set_weights [0, 1, 1 / 2] None (Some [1, 0]) = (Inl RuntimeError, Some [1, 0])"
  using set_weights_rounded_moving_average [of "[0, 1, 1 / 2]" None "[1, 0, 1 / 2]"]
        set_weights_rounded_moving_average [of "[0, 1, 1 / 2]" None "[1, 0]"]
  by (simp add: fl32_values)

subsection \<open>The round loop\<close>






subsection \<open>The list supply\<close>








text \<open>
  C9. For every category other than \<open>text\<close> and \<open>images\<close>, \<open>get_question\<close> raises
  ValueError and leaves the machine, the queues included, as it was; in particular for
  the category \<open>embeddings\<close>.
\<close>

theorem get_question_rejects_other_categories:
  "category \<noteq> ''text'' \<Longrightarrow> category \<noteq> ''images'' \<Longrightarrow>
   get_question category m = (Inl ValueError, m)"
  by (simp add: get_question_def)

theorem get_question_rejects_other_categories_witness:
  "''embeddings'' \<noteq> ''text'' \<and> ''embeddings'' \<noteq> ''images'' \<and>
   get_question ''embeddings'' api_down = (Inl ValueError, api_down)"
  using get_question_rejects_other_categories [of "''embeddings''" api_down]
  by simp

subsection \<open>Taking from a queue\<close>
















subsection \<open>The supply in the world without oracle\<close>






end
